theory Spec2Isabelle
  imports Complex_Main "HOL-Library.Word"
begin

section \<open>The host language\<close>

text \<open>
  The module \<^verbatim>\<open>src/image/image.js\<close> is JavaScript. Its numbers are modelled as
  exact reals (rounding of doubles and NaN are outside the model), its strings as
  \<^typ>\<open>string\<close>, an optional argument as an \<^typ>\<open>'a option\<close> whose \<open>None\<close> is
  \<^verbatim>\<open>undefined\<close>, and an exception as a value of \<open>error\<close>.
\<close>

datatype error =
  TypeError
| ReferenceError
| InvalidFrameError
| PaletteMismatchError
| DimensionMismatchError
| EncoderClosedError

text \<open>\<^verbatim>\<open>x || d\<close> on an optional number: \<^verbatim>\<open>undefined\<close> and \<open>0\<close> are falsy.\<close>

definition or_default :: "real option \<Rightarrow> real \<Rightarrow> real" where
  "or_default x d = (case x of None \<Rightarrow> d | Some v \<Rightarrow> if v = 0 then d else v)"

text \<open>\<^verbatim>\<open>!extension\<close> on an optional string: \<^verbatim>\<open>undefined\<close> and the empty string are falsy.\<close>

definition falsy :: "string option \<Rightarrow> bool" where
  "falsy x = (case x of None \<Rightarrow> True | Some s \<Rightarrow> s = [])"

text \<open>\<^verbatim>\<open>String.prototype.toLowerCase\<close> on the letters of ASCII.\<close>

definition lower_char :: "char \<Rightarrow> char" where
  "lower_char c =
     (case map_of (zip ''ABCDEFGHIJKLMNOPQRSTUVWXYZ'' ''abcdefghijklmnopqrstuvwxyz'') c of
        None \<Rightarrow> c
      | Some d \<Rightarrow> d)"

definition toLowerCase :: "string \<Rightarrow> string" where
  "toLowerCase s = map lower_char s"

text \<open>
  \<^verbatim>\<open>s.replace(pat, rep)\<close> with a string pattern: the first occurrence of \<open>pat\<close> in
  \<open>s\<close> is replaced, and \<open>s\<close> is returned as it is when there is none. (The
  replacement used by the module has no \<^verbatim>\<open>$\<close> pattern.)
\<close>

fun replace :: "string \<Rightarrow> string \<Rightarrow> string \<Rightarrow> string" where
  "replace pat rep [] = (if pat = [] then rep else [])"
| "replace pat rep (c # cs) =
     (if take (length pat) (c # cs) = pat then rep @ drop (length pat) (c # cs)
      else c # replace pat rep cs)"

text \<open>\<^verbatim>\<open>count.toString()\<close> as used by \<^verbatim>\<open>fName + count\<close>: the decimal numeral of a counter.\<close>

definition digit :: "nat \<Rightarrow> char" where
  "digit d = ''0123456789'' ! d"

function toString :: "nat \<Rightarrow> string" where
  "toString n = (if n < 10 then [digit n] else toString (n div 10) @ [digit (n mod 10)])"
  by pat_completeness auto
termination
  by (relation "measure id") auto

declare toString.simps [simp del]

text \<open>
  Modelled from the spec: \<^verbatim>\<open>p5.prototype.constrain\<close> belongs to the math module, which
  is not among the sources. Section 4.1 says the value is clamped to the range
  \<open>[low, high]\<close>.
\<close>

definition constrain :: "real \<Rightarrow> real \<Rightarrow> real \<Rightarrow> real" where
  "constrain n low high = max (min n high) low"

section \<open>Still export: \<^verbatim>\<open>_makeFrame\<close>\<close>

text \<open>
  A canvas is known by its \<^verbatim>\<open>toDataURL\<close>: the instant of the call and the requested
  mime type give the data URI. The content of the canvas is drawn elsewhere, so it is a
  function of the instant.
\<close>

type_synonym canvas = "real \<Rightarrow> string \<Rightarrow> string"

record element =
  elt :: canvas

record p5 =
  curElement :: "element option"

record frame =
  imageData :: string
  filename :: string
  ext :: string

text \<open>The \<^verbatim>\<open>if (!extension) ... else switch (extension.toLowerCase())\<close> of lines 308 to 326.\<close>

definition mimeType_of :: "string option \<Rightarrow> string" where
  "mimeType_of extension =
     (case extension of
        None \<Rightarrow> ''image/png''
      | Some x \<Rightarrow>
          if x = [] then ''image/png''
          else
            (let e = toLowerCase x in
             if e = ''png'' then ''image/png''
             else if e = ''jpeg'' then ''image/jpeg''
             else if e = ''jpg'' then ''image/jpeg''
             else ''image/png''))"

definition extension_of :: "string option \<Rightarrow> string" where
  "extension_of extension =
     (case extension of None \<Rightarrow> ''png'' | Some x \<Rightarrow> if x = [] then ''png'' else x)"

definition downloadMime :: string where
  "downloadMime = ''image/octet-stream''"

text \<open>
  Lines 301 to 306: the canvas is that of the receiver \<open>this\<close> when there is one
  (\<open>None\<close> is the receiver of a bare call in strict mode), and the argument \<^verbatim>\<open>_cnv\<close>
  otherwise. Reading \<^verbatim>\<open>.elt\<close> of a null \<^verbatim>\<open>_curElement\<close> throws a TypeError.
\<close>

definition receiver_canvas :: "p5 option \<Rightarrow> canvas option \<Rightarrow> error + canvas option" where
  "receiver_canvas this cnv' =
     (case this of
        Some inst \<Rightarrow>
          (case curElement inst of None \<Rightarrow> Inl TypeError | Some el \<Rightarrow> Inr (Some (elt el)))
      | None \<Rightarrow> Inr cnv')"

text \<open>
  \<^verbatim>\<open>_makeFrame(filename, extension, _cnv)\<close>, called at the instant \<open>now\<close>. Calling
  \<^verbatim>\<open>.toDataURL\<close> on a missing canvas throws a TypeError.
\<close>

definition makeFrame ::
  "p5 option \<Rightarrow> real \<Rightarrow> string \<Rightarrow> string option \<Rightarrow> canvas option \<Rightarrow> error + frame" where
  "makeFrame this now fname extension cnv' =
     (case receiver_canvas this cnv' of
        Inl e \<Rightarrow> Inl e
      | Inr None \<Rightarrow> Inl TypeError
      | Inr (Some cnv) \<Rightarrow>
          (let mimeType = mimeType_of extension;
               imageData = cnv now mimeType;
               imageData = replace mimeType downloadMime imageData
           in Inr \<lparr>imageData = imageData, filename = fname, ext = extension_of extension\<rparr>))"

section \<open>Timed capture: \<^verbatim>\<open>saveFrames\<close>\<close>

text \<open>Lines 272 to 276: the default, the clamp and the conversion to milliseconds.\<close>

definition duration_of :: "real option \<Rightarrow> real" where
  "duration_of duration' =
     (let duration = or_default duration' 3;
          duration = constrain duration 0 15;
          duration = duration * 1000
      in duration)"

definition fps_of :: "real option \<Rightarrow> real" where
  "fps_of fps' =
     (let fps = or_default fps' 15;
          fps = constrain fps 0 22
      in fps)"

text \<open>
  \<^verbatim>\<open>1000 / fps\<close>, the period handed to \<^verbatim>\<open>setInterval\<close>. JavaScript does not raise on a
  division by zero: the quotient is \<^verbatim>\<open>Infinity\<close>, written \<open>Never\<close> here.
\<close>

datatype period = Every real | Never

definition period_of :: "real \<Rightarrow> period" where
  "period_of fps = (if fps = 0 then Never else Every (1000 / fps))"

text \<open>
  The calls the session makes on its collaborators, in the order they happen: the canvas
  is read at an instant, the callback receives the buffer, a still reaches
  \<^verbatim>\<open>downloadFile\<close>.
\<close>

datatype event =
  ToDataURL real string
| Callback "frame list"
| DownloadFile string string string

text \<open>
  A timer of the host: due at an instant, never due (a delay of \<^verbatim>\<open>Infinity\<close>), or
  cleared (cancelled, or a timeout that has fired).
\<close>

datatype timer = At real | Unreachable | Cleared

text \<open>
  The variables the two timer callbacks close over (\<^verbatim>\<open>frames\<close>, \<^verbatim>\<open>count\<close>, the handle
  \<^verbatim>\<open>frameFactory\<close> of the repeating timer), the timeout set at line 287, and the trace of
  calls made so far.
\<close>

record session =
  frames_buf :: "frame list"
  count :: nat
  frameFactory :: timer
  deadline :: timer
  trace :: "event list"

text \<open>The callback of \<^verbatim>\<open>setInterval\<close> (lines 283 and 284), run at the instant \<open>now\<close>.\<close>

definition tick :: "string \<Rightarrow> string option \<Rightarrow> canvas \<Rightarrow> real \<Rightarrow> session \<Rightarrow> session" where
  "tick fName ext' cnv now s =
     (case makeFrame None now (fName @ toString (count s)) ext' (Some cnv) of
        Inl e \<Rightarrow> s
      | Inr f \<Rightarrow>
          s\<lparr>frames_buf := frames_buf s @ [f],
            count := Suc (count s),
            trace := trace s @ [ToDataURL now (mimeType_of ext')]\<rparr>)"

text \<open>
  The callback of \<^verbatim>\<open>setTimeout\<close> (lines 288 to 296): \<^verbatim>\<open>clearInterval(frameFactory)\<close>,
  the hand-over to the callback or to \<^verbatim>\<open>downloadFile\<close>, and \<^verbatim>\<open>frames = []\<close>.
\<close>

definition timeout :: "bool \<Rightarrow> session \<Rightarrow> session" where
  "timeout callback s =
     (let s = s\<lparr>frameFactory := Cleared\<rparr>;
          s = (if callback then s\<lparr>trace := trace s @ [Callback (frames_buf s)]\<rparr>
               else s\<lparr>trace := trace s @
                        map (\<lambda>f. DownloadFile (imageData f) (filename f) (ext f)) (frames_buf s)\<rparr>)
      in s\<lparr>frames_buf := []\<rparr>)"

text \<open>
  Modelled from the spec: the timers of the host are not part of the sources. Section 4.1
  describes a fixed-period timer whose ticks are neither skipped nor coalesced, and a
  cutoff at which the last tick before the cutoff is the final frame. So a repeating
  timer that ran at the instant \<open>due\<close> is due again one period later, and one of period
  \<^verbatim>\<open>Infinity\<close> never; the host runs the callback of the timer that is due first, the
  timeout before a tick due at the same instant; it is idle when no timer is due any
  more. Latency and the rounding of delays to whole milliseconds by a browser are outside
  the model. \<open>run\<close> is the host from a state of the session on; it returns the state in
  which the host is idle, and \<open>None\<close> if it never is.
\<close>

definition next_due :: "period \<Rightarrow> real \<Rightarrow> timer" where
  "next_due per now = (case per of Every p \<Rightarrow> At (now + p) | Never \<Rightarrow> Unreachable)"

partial_function (option) run ::
  "string \<Rightarrow> string option \<Rightarrow> canvas \<Rightarrow> period \<Rightarrow> bool \<Rightarrow> session \<Rightarrow> session option" where
  "run fName ext' cnv per callback s =
     (case frameFactory s of
        At due \<Rightarrow>
          (case deadline s of
             At cutoff \<Rightarrow>
               if due < cutoff
               then run fName ext' cnv per callback
                      ((tick fName ext' cnv due s)\<lparr>frameFactory := next_due per due\<rparr>)
               else run fName ext' cnv per callback ((timeout callback s)\<lparr>deadline := Cleared\<rparr>)
           | _ \<Rightarrow>
               run fName ext' cnv per callback
                 ((tick fName ext' cnv due s)\<lparr>frameFactory := next_due per due\<rparr>))
      | _ \<Rightarrow>
          (case deadline s of
             At cutoff \<Rightarrow>
               run fName ext' cnv per callback ((timeout callback s)\<lparr>deadline := Cleared\<rparr>)
           | _ \<Rightarrow> Some s))"

text \<open>
  \<^verbatim>\<open>saveFrames(fName, ext, _duration, _fps, callback)\<close> on the instance \<open>this\<close>, called
  at the instant \<open>0\<close>, with what the host does with its two timers afterwards. The
  result is the session when the host is idle again, or the TypeError of reading
  \<^verbatim>\<open>.elt\<close> of a null \<^verbatim>\<open>_curElement\<close> (no timer is set in that case). \<open>callback\<close> says
  whether the caller gave one. (\<^verbatim>\<open>p5._validateParameters\<close> only reports; it is not
  modelled.)
\<close>

definition saveFrames ::
  "p5 \<Rightarrow> string \<Rightarrow> string option \<Rightarrow> real option \<Rightarrow> real option \<Rightarrow> bool \<Rightarrow>
   (error + session) option" where
  "saveFrames this fName ext' duration' fps' callback =
     (let duration = duration_of duration';
          fps = fps_of fps'
      in case curElement this of
           None \<Rightarrow> Some (Inl TypeError)
         | Some el \<Rightarrow>
             (let cnv = elt el;
                  s = \<lparr>frames_buf = [], count = 0,
                       frameFactory = next_due (period_of fps) 0,
                       deadline = At (duration + 0.01),
                       trace = []\<rparr>
              in map_option Inr (run fName ext' cnv (period_of fps) callback s)))"

text \<open>
  The still that the tick of index \<open>k\<close>, run at the instant \<open>t\<close>, appends: what
  \<^verbatim>\<open>makeFrame(fName + count, ext, cnv)\<close> returns there.
\<close>

definition still :: "string \<Rightarrow> string option \<Rightarrow> canvas \<Rightarrow> real \<Rightarrow> nat \<Rightarrow> frame" where
  "still fName ext' cnv t k =
     \<lparr>imageData = replace (mimeType_of ext') downloadMime (cnv t (mimeType_of ext')),
      filename = fName @ toString k,
      ext = extension_of ext'\<rparr>"

text \<open>The number of instants \<open>due\<close>, \<open>due + p\<close>, \<open>due + 2p\<close>, ... that lie before the cutoff.\<close>

definition ticks_before :: "real \<Rightarrow> real \<Rightarrow> real \<Rightarrow> nat" where
  "ticks_before p cutoff due = nat \<lceil>(cutoff - due) / p\<rceil>"

text \<open>What the timeout callback hands to the continuation, as the calls it makes.\<close>

definition handoff :: "bool \<Rightarrow> frame list \<Rightarrow> event list" where
  "handoff callback fs =
     (if callback then [Callback fs]
      else map (\<lambda>f. DownloadFile (imageData f) (filename f) (ext f)) fs)"



section \<open>Animated export: \<^verbatim>\<open>encodeAndDownloadGif\<close>\<close>

type_synonym byte = "8 word"

datatype format = rgba4444 | rgb444 | rgb565

text \<open>
  A frame of \<^verbatim>\<open>pImg.gifProperties.frames\<close>: an \<^verbatim>\<open>ImageData\<close> (pixel bytes with its own
  width and height) and a delay. \<^verbatim>\<open>gifProperties\<close> is null on an image that is not
  animated.
\<close>

record image_data =
  data :: "byte list"
  image_width :: nat
  image_height :: nat

record gif_frame =
  image :: image_data
  delay :: real

record gif_properties =
  frames :: "gif_frame list"

record p5_Image =
  gifProperties :: "gif_properties option"

text \<open>
  Line 210 reads \<^verbatim>\<open>width\<close> and \<^verbatim>\<open>height\<close>, which the function does not declare: they
  are looked up in the global scope, and an identifier that is not bound there throws a
  ReferenceError.
\<close>

record globals =
  width :: "real option"
  height :: "real option"

text \<open>
  The package \<^verbatim>\<open>gifenc\<close> (\<^verbatim>\<open>GIFEncoder\<close>, \<^verbatim>\<open>quantize\<close>, \<^verbatim>\<open>applyPalette\<close>) is imported,
  not defined, by the module: it is a parameter of the model. \<open>'e\<close> is the encoder
  object, \<open>'p\<close> a palette, \<open>'b\<close> the byte view of the stream. A call may throw. The
  encoder is mutated in place by the source; here each call returns the new encoder.
\<close>

record ('e, 'p, 'b) gifenc =
  GIFEncoder :: 'e
  quantize :: "byte list \<Rightarrow> nat \<Rightarrow> format \<Rightarrow> bool \<Rightarrow> error + 'p"
  applyPalette :: "byte list \<Rightarrow> 'p \<Rightarrow> format \<Rightarrow> error + byte list"
  writeFrame :: "'e \<Rightarrow> byte list \<Rightarrow> real \<Rightarrow> real \<Rightarrow> 'p \<Rightarrow> real \<Rightarrow> error + 'e"
  finish :: "'e \<Rightarrow> 'e"
  bytesView :: "'e \<Rightarrow> 'b"

text \<open>The body of the loop, lines 196 to 210, on the frame \<open>f\<close> (console output is not modelled).\<close>

definition encodeFrame ::
  "('e, 'p, 'b) gifenc \<Rightarrow> globals \<Rightarrow> 'e \<Rightarrow> gif_frame \<Rightarrow> error + 'e" where
  "encodeFrame lib g gif f =
     (let dat = data (image f);
          fmt = rgba4444
      in case quantize lib dat 256 fmt False of
           Inl e \<Rightarrow> Inl e
         | Inr palette \<Rightarrow>
             (case applyPalette lib dat palette fmt of
                Inl e \<Rightarrow> Inl e
              | Inr index \<Rightarrow>
                  (case width g of
                     None \<Rightarrow> Inl ReferenceError
                   | Some w \<Rightarrow>
                       (case height g of
                          None \<Rightarrow> Inl ReferenceError
                        | Some h \<Rightarrow> writeFrame lib gif index w h palette (delay f)))))"

text \<open>\<^verbatim>\<open>for (let i = 0; i < frames.length; i++)\<close>, from the index \<open>i\<close> on.\<close>

function encodeLoop ::
  "('e, 'p, 'b) gifenc \<Rightarrow> globals \<Rightarrow> gif_frame list \<Rightarrow> nat \<Rightarrow> 'e \<Rightarrow> error + 'e" where
  "encodeLoop lib g fs i gif =
     (if i < length fs
      then (case encodeFrame lib g gif (fs ! i) of
              Inl e \<Rightarrow> Inl e
            | Inr gif' \<Rightarrow> encodeLoop lib g fs (Suc i) gif')
      else Inr gif)"
  by pat_completeness auto
termination
  by (relation "measure (\<lambda>(lib, g, fs, i, gif). length fs - i)") auto

declare encodeLoop.simps [simp del]

text \<open>
  What reaches \<^verbatim>\<open>p5.prototype.downloadFile\<close>: a blob (its parts and its type), a file name
  and an extension. The outcome of a call is the exception it ended with, if any, and the
  downloads it made.
\<close>

record 'b blob =
  blobParts :: "'b list"
  blob_type :: string

record 'b download =
  payload :: "'b blob"
  file_name :: string
  file_extension :: string

record 'b outcome =
  raised :: "error option"
  downloads :: "'b download list"

definition encodeAndDownloadGif ::
  "('e, 'p, 'b) gifenc \<Rightarrow> globals \<Rightarrow> p5_Image \<Rightarrow> string \<Rightarrow> 'b outcome" where
  "encodeAndDownloadGif lib g pImg fname =
     (case gifProperties pImg of
        None \<Rightarrow> \<lparr>raised = Some TypeError, downloads = []\<rparr>
      | Some props \<Rightarrow>
          (case encodeLoop lib g (frames props) 0 (GIFEncoder lib) of
             Inl e \<Rightarrow> \<lparr>raised = Some e, downloads = []\<rparr>
           | Inr gif \<Rightarrow>
               (let gif = finish lib gif;
                    buffer = bytesView lib gif;
                    extension = ''gif'';
                    blob = \<lparr>blobParts = [buffer], blob_type = ''image/gif''\<rparr>
                in \<lparr>raised = None,
                    downloads = [\<lparr>payload = blob, file_name = fname,
                                  file_extension = extension\<rparr>]\<rparr>)))"

subsection \<open>The records an encoder is given, and a reference encoder\<close>




text \<open>
  Modelled from the spec: the encoder, the quantizer and the indexer are the package
  \<^verbatim>\<open>gifenc\<close>, which is not among the sources. The encoder follows section 4.4: the states
  \<open>Open\<close>, \<open>Writing\<close>, \<open>Finished\<close>; a header when it is opened; one self-contained record
  per frame (palette table, delay, dimensions, indexed pixels); a trailer when it is
  finished; \<open>EncoderClosedError\<close> on a write after the trailer and
  \<open>DimensionMismatchError\<close> on a frame whose dimensions differ from the first one's. The
  sections 4.2 and 4.3 fix no quantization algorithm; the quantizer here keeps the first
  \<open>maxColors\<close> distinct pixels (\<open>InvalidFrameError\<close> when the length is no multiple
  of 4), the indexer gives the position of a pixel in the palette
  (\<open>PaletteMismatchError\<close> on an empty palette). It serves to instantiate the theorems,
  which are stated for every library.
\<close>

datatype encoder_state = Open | Writing | Finished

datatype block =
  Header
| FrameRecord "byte list list" real real real "byte list"
| Trailer

record encoder =
  state :: encoder_state
  dims :: "(real \<times> real) option"
  stream :: "block list"

fun pixels :: "byte list \<Rightarrow> byte list list" where
  "pixels (r # g # b # a # rest) = [r, g, b, a] # pixels rest"
| "pixels _ = []"

definition ref_quantize :: "byte list \<Rightarrow> nat \<Rightarrow> format \<Rightarrow> bool \<Rightarrow> error + byte list list" where
  "ref_quantize dat maxColors fmt clearAlpha =
     (if length dat mod 4 \<noteq> 0 then Inl InvalidFrameError
      else Inr (take maxColors (remdups (pixels dat))))"

fun index_of :: "'a \<Rightarrow> 'a list \<Rightarrow> nat" where
  "index_of x [] = 0"
| "index_of x (y # ys) = (if x = y then 0 else if x \<in> set ys then Suc (index_of x ys) else 0)"

definition ref_applyPalette :: "byte list \<Rightarrow> byte list list \<Rightarrow> format \<Rightarrow> error + byte list" where
  "ref_applyPalette dat palette fmt =
     (if palette = [] then Inl PaletteMismatchError
      else Inr (map (\<lambda>px. of_nat (index_of px palette)) (pixels dat)))"

definition ref_writeFrame ::
  "encoder \<Rightarrow> byte list \<Rightarrow> real \<Rightarrow> real \<Rightarrow> byte list list \<Rightarrow> real \<Rightarrow> error + encoder" where
  "ref_writeFrame gif index w h palette d =
     (if state gif = Finished then Inl EncoderClosedError
      else if dims gif \<noteq> None \<and> dims gif \<noteq> Some (w, h) then Inl DimensionMismatchError
      else Inr (gif\<lparr>state := Writing, dims := Some (w, h),
                    stream := stream gif @ [FrameRecord palette d w h index]\<rparr>))"

definition ref_finish :: "encoder \<Rightarrow> encoder" where
  "ref_finish gif = gif\<lparr>state := Finished, stream := stream gif @ [Trailer]\<rparr>"

definition ref_gifenc :: "(encoder, byte list list, block list) gifenc" where
  "ref_gifenc =
     \<lparr>GIFEncoder = \<lparr>state = Open, dims = None, stream = [Header]\<rparr>,
      quantize = ref_quantize,
      applyPalette = ref_applyPalette,
      writeFrame = ref_writeFrame,
      finish = ref_finish,
      bytesView = stream\<rparr>"



text \<open>
  The loop as a recursion on the frames that are left; \<open>encodeLoop\<close> from the index
  \<open>i\<close> is proved below to be this function on \<open>drop i fs\<close>.
\<close>

fun encodeAll ::
  "('e, 'p, 'b) gifenc \<Rightarrow> globals \<Rightarrow> 'e \<Rightarrow> gif_frame list \<Rightarrow> error + 'e" where
  "encodeAll lib g gif [] = Inr gif"
| "encodeAll lib g gif (f # fs) =
     (case encodeFrame lib g gif f of
        Inl e \<Rightarrow> Inl e
      | Inr gif' \<Rightarrow> encodeAll lib g gif' fs)"



text \<open>Concrete inputs are written with these two constructors.\<close>

definition frame_of :: "byte list \<Rightarrow> nat \<Rightarrow> nat \<Rightarrow> real \<Rightarrow> gif_frame" where
  "frame_of dat w h d = \<lparr>image = \<lparr>data = dat, image_width = w, image_height = h\<rparr>, delay = d\<rparr>"

definition animation :: "gif_frame list \<Rightarrow> p5_Image" where
  "animation fs = \<lparr>gifProperties = Some \<lparr>frames = fs\<rparr>\<rparr>"

section \<open>Properties of the still export\<close>

lemma replace_data_uri:
  "mime = ''image/png'' \<or> mime = ''image/jpeg'' \<Longrightarrow>
   replace mime rep (''data:'' @ mime @ rest) = ''data:'' @ rep @ rest"
  by auto

lemma mimeType_of_cases:
  "mimeType_of extension = ''image/png'' \<or> mimeType_of extension = ''image/jpeg''"
  by (simp add: mimeType_of_def Let_def split: option.split)

text \<open>
  C10. Whenever \<^verbatim>\<open>_makeFrame\<close> has a canvas to read, it returns a record: its file name
  is the argument; its extension is \<open>png\<close> when none is supplied (an absent or empty
  extension) and the supplied one otherwise; the mime type asked of the canvas is
  \<open>image/png\<close> for every supplied extension that is not \<open>png\<close>, \<open>jpeg\<close> or \<open>jpg\<close> in
  any letter case (and \<open>image/jpeg\<close> for \<open>jpeg\<close> and \<open>jpg\<close>); its image data is the
  data URI of the canvas with the first occurrence of that mime type replaced by
  \<open>image/octet-stream\<close>, so a URI \<open>data:<mime>...\<close> becomes
  \<open>data:image/octet-stream...\<close>.
\<close>

theorem makeFrame_record:
  assumes "receiver_canvas this cnv' = Inr (Some cnv)"
  shows "\<exists>fr. makeFrame this now fname extension cnv' = Inr fr \<and>
           filename fr = fname \<and>
           (falsy extension \<longrightarrow> ext fr = ''png'' \<and> mimeType_of extension = ''image/png'') \<and>
           (\<forall>x. extension = Some x \<and> x \<noteq> [] \<longrightarrow> ext fr = x) \<and>
           (\<forall>x. extension = Some x \<and> toLowerCase x \<notin> {''png'', ''jpeg'', ''jpg''} \<longrightarrow>
                mimeType_of extension = ''image/png'') \<and>
           (\<forall>x. extension = Some x \<and> toLowerCase x \<in> {''jpeg'', ''jpg''} \<longrightarrow>
                mimeType_of extension = ''image/jpeg'') \<and>
           imageData fr =
             replace (mimeType_of extension) ''image/octet-stream'' (cnv now (mimeType_of extension)) \<and>
           (\<forall>rest. cnv now (mimeType_of extension) = ''data:'' @ mimeType_of extension @ rest \<longrightarrow>
                imageData fr = ''data:image/octet-stream'' @ rest)"
proof -
  have m: "makeFrame this now fname extension cnv' =
      Inr \<lparr>imageData = replace (mimeType_of extension) downloadMime (cnv now (mimeType_of extension)),
           filename = fname, ext = extension_of extension\<rparr>"
    using assms by (simp add: makeFrame_def Let_def)
  have uri: "replace (mimeType_of extension) downloadMime (''data:'' @ mimeType_of extension @ rest) =
      ''data:image/octet-stream'' @ rest" for rest
    using replace_data_uri [OF mimeType_of_cases, of extension downloadMime rest]
    by (simp add: downloadMime_def)
  have e1: "falsy extension \<longrightarrow>
      extension_of extension = ''png'' \<and> mimeType_of extension = ''image/png''"
    by (simp add: falsy_def extension_of_def mimeType_of_def split: option.split)
  have e2: "\<forall>x. extension = Some x \<and> x \<noteq> [] \<longrightarrow> extension_of extension = x"
    by (simp add: extension_of_def)
  have e3: "\<forall>x. extension = Some x \<and> toLowerCase x \<notin> {''png'', ''jpeg'', ''jpg''} \<longrightarrow>
      mimeType_of extension = ''image/png''"
    by (simp add: mimeType_of_def Let_def)
  have e4: "\<forall>x. extension = Some x \<and> toLowerCase x \<in> {''jpeg'', ''jpg''} \<longrightarrow>
      mimeType_of extension = ''image/jpeg''"
    by (auto simp add: mimeType_of_def Let_def toLowerCase_def)
  have e5: "\<forall>rest. cnv now (mimeType_of extension) = ''data:'' @ mimeType_of extension @ rest \<longrightarrow>
      replace (mimeType_of extension) ''image/octet-stream'' (cnv now (mimeType_of extension)) =
        ''data:image/octet-stream'' @ rest"
    using uri by (simp add: downloadMime_def del: replace.simps)
  show ?thesis
    unfolding m downloadMime_def using e1 e2 e3 e4 e5 by (simp del: replace.simps)
qed

theorem makeFrame_record_witness:
  "receiver_canvas None (Some (\<lambda>t m. ''data:'' @ m @ '';base64,AAAA'')) =
     Inr (Some (\<lambda>t m. ''data:'' @ m @ '';base64,AAAA'')) \<and>
   makeFrame None 0 ''out0'' (Some ''GIF'') (Some (\<lambda>t m. ''data:'' @ m @ '';base64,AAAA'')) =
     Inr \<lparr>imageData = ''data:image/octet-stream;base64,AAAA'', filename = ''out0'', ext = ''GIF''\<rparr> \<and>
   mimeType_of (Some ''GIF'') = ''image/png''"
proof -
  let ?cnv = "\<lambda>(t::real) m. ''data:'' @ m @ '';base64,AAAA''"
  have h: "receiver_canvas None (Some ?cnv) = Inr (Some ?cnv)"
    by (simp add: receiver_canvas_def)
  have l: "toLowerCase ''GIF'' = ''gif''"
    by (simp add: toLowerCase_def lower_char_def)
  from makeFrame_record [OF h, of 0 "''out0''" "Some ''GIF''"]
  obtain fr where fr: "makeFrame None 0 ''out0'' (Some ''GIF'') (Some ?cnv) = Inr fr"
    and n: "filename fr = ''out0''"
    and x: "\<forall>x. Some ''GIF'' = Some x \<and> x \<noteq> [] \<longrightarrow> ext fr = x"
    and m: "\<forall>x. Some ''GIF'' = Some x \<and> toLowerCase x \<notin> {''png'', ''jpeg'', ''jpg''} \<longrightarrow>
                mimeType_of (Some ''GIF'') = ''image/png''"
    and d: "\<forall>rest. ?cnv 0 (mimeType_of (Some ''GIF'')) = ''data:'' @ mimeType_of (Some ''GIF'') @ rest \<longrightarrow>
                imageData fr = ''data:image/octet-stream'' @ rest"
    by blast
  from m l have m': "mimeType_of (Some ''GIF'') = ''image/png''"
    by simp
  from x have x': "ext fr = ''GIF''"
    by simp
  from d have d': "imageData fr = ''data:image/octet-stream;base64,AAAA''"
    by simp
  have "fr = \<lparr>imageData = ''data:image/octet-stream;base64,AAAA'', filename = ''out0'', ext = ''GIF''\<rparr>"
    using n x' d' by simp
  with h fr m' show ?thesis
    by simp
qed

section \<open>Properties of the timed capture\<close>

lemma tick_still:
  "tick fName e cnv t s =
     s\<lparr>frames_buf := frames_buf s @ [still fName e cnv t (count s)],
       count := Suc (count s),
       trace := trace s @ [ToDataURL t (mimeType_of e)]\<rparr>"
  by (simp add: tick_def makeFrame_def receiver_canvas_def still_def Let_def)

lemma ticks_before_0: "0 < p \<Longrightarrow> cutoff \<le> due \<Longrightarrow> ticks_before p cutoff due = 0"
  by (simp add: ticks_before_def divide_le_0_iff)

lemma ticks_before_Suc:
  assumes "0 < p" "due < cutoff"
  shows "ticks_before p cutoff due = Suc (ticks_before p cutoff (due + p))"
proof -
  have "(cutoff - (due + p)) / p = (cutoff - due) / p - 1"
    using assms by (simp add: field_simps)
  moreover have "0 < (cutoff - due) / p"
    using assms by simp
  ultimately show ?thesis
    unfolding ticks_before_def by (simp add: nat_eq_iff)
qed


lemma fps_of_range: "0 \<le> fps_of f \<and> fps_of f \<le> 22"
  by (simp add: fps_of_def constrain_def)

lemma duration_of_range: "0 \<le> duration_of d \<and> duration_of d \<le> 15 * 1000"
  by (simp add: duration_of_def constrain_def)


text \<open>The host is idle when both timers are cleared.\<close>

lemma run_idle:
  assumes "frameFactory s = Cleared" and "deadline s = Cleared"
  shows "run fName e cnv per cb s = Some s"
  by (subst run.simps) (simp add: assms)

text \<open>When the timeout is due first, its callback runs and nothing runs after it.\<close>

lemma run_timeout:
  assumes "frameFactory s = At due \<and> \<not> due < cutoff \<or> frameFactory s = Unreachable"
    and "deadline s = At cutoff"
  shows "run fName e cnv per cb s = Some ((timeout cb s)\<lparr>deadline := Cleared\<rparr>)"
proof -
  have "run fName e cnv per cb s = run fName e cnv per cb ((timeout cb s)\<lparr>deadline := Cleared\<rparr>)"
    using assms by (subst run.simps) auto
  also have "\<dots> = Some ((timeout cb s)\<lparr>deadline := Cleared\<rparr>)"
    by (rule run_idle) (simp_all add: timeout_def Let_def)
  finally show ?thesis .
qed

text \<open>When a tick is due first, its callback runs and the timer is due one period later.\<close>

lemma run_tick:
  assumes "frameFactory s = At due" and "deadline s = At cutoff" and "due < cutoff"
  shows "run fName e cnv (Every p) cb s =
         run fName e cnv (Every p) cb ((tick fName e cnv due s)\<lparr>frameFactory := At (due + p)\<rparr>)"
  using assms by (subst run.simps) (simp add: next_due_def)

lemma run_closed:
  assumes "0 < p" and "frameFactory s = At due" and "deadline s = At cutoff"
    and "n = ticks_before p cutoff due"
  shows "run fName e cnv (Every p) cb s =
     Some (s\<lparr>frames_buf := [],
             count := count s + n,
             frameFactory := Cleared,
             deadline := Cleared,
             trace := trace s @
               map (\<lambda>k. ToDataURL (due + real k * p) (mimeType_of e)) [0..<n] @
               handoff cb (frames_buf s @
                 map (\<lambda>k. still fName e cnv (due + real k * p) (count s + k)) [0..<n])\<rparr>)"
  using assms(2-4)
proof (induction n arbitrary: s due)
  case 0
  have "\<not> due < cutoff"
  proof
    assume "due < cutoff"
    from ticks_before_Suc [OF assms(1) this] "0.prems"(3) show False
      by simp
  qed
  with "0.prems" run_timeout [of s due cutoff fName e cnv "Every p" cb] show ?case
    by (simp add: timeout_def handoff_def)
next
  case (Suc n)
  have less: "due < cutoff"
  proof (rule ccontr)
    assume "\<not> due < cutoff"
    then have "ticks_before p cutoff due = 0"
      using assms(1) by (simp add: ticks_before_0)
    with Suc.prems(3) show False
      by simp
  qed
  let ?s = "(tick fName e cnv due s)\<lparr>frameFactory := At (due + p)\<rparr>"
  have n: "n = ticks_before p cutoff (due + p)"
    using ticks_before_Suc [OF assms(1) less] Suc.prems(3) by simp
  have ff: "frameFactory ?s = At (due + p)" and dl: "deadline ?s = At cutoff"
    using Suc.prems(2) by (simp_all add: tick_still)
  have shift: "map f [0..<Suc n] = f 0 # map (\<lambda>k. f (Suc k)) [0..<n]" for f :: "nat \<Rightarrow> 'a"
    by (simp add: upt_conv_Cons map_Suc_upt [symmetric] del: upt_Suc)
  have "run fName e cnv (Every p) cb s = run fName e cnv (Every p) cb ?s"
    using Suc.prems(1,2) less by (rule run_tick)
  also note Suc.IH [OF ff dl n]
  finally show ?case
    by (simp add: shift tick_still algebra_simps del: upt_Suc)
qed


lemma saveFrames_every:
  assumes "curElement this = Some el" and "period_of (fps_of f) = Every p" and "0 < p"
  shows "saveFrames this fName e d f cb =
     Some (Inr \<lparr>frames_buf = [], count = ticks_before p (duration_of d + 0.01) p,
                frameFactory = Cleared, deadline = Cleared,
                trace = map (\<lambda>k. ToDataURL (real (Suc k) * p) (mimeType_of e))
                          [0..<ticks_before p (duration_of d + 0.01) p] @
                        handoff cb (map (\<lambda>k. still fName e (elt el) (real (Suc k) * p) k)
                          [0..<ticks_before p (duration_of d + 0.01) p])\<rparr>)"
proof -
  let ?s = "\<lparr>frames_buf = [], count = 0, frameFactory = At p,
             deadline = At (duration_of d + 0.01), trace = []\<rparr>"
  have t: "p + real k * p = real (Suc k) * p" for k
    by (simp add: algebra_simps)
  have "run fName e (elt el) (Every p) cb ?s =
     Some (\<lparr>frames_buf = [], count = ticks_before p (duration_of d + 0.01) p,
            frameFactory = Cleared, deadline = Cleared,
            trace = map (\<lambda>k. ToDataURL (real (Suc k) * p) (mimeType_of e))
                      [0..<ticks_before p (duration_of d + 0.01) p] @
                    handoff cb (map (\<lambda>k. still fName e (elt el) (real (Suc k) * p) k)
                      [0..<ticks_before p (duration_of d + 0.01) p])\<rparr>)"
    using run_closed [OF assms(3), of ?s p "duration_of d + 0.01" _ fName e "elt el" cb]
    by (simp add: t del: of_nat_Suc)
  then show ?thesis
    using assms(1,2) by (simp add: saveFrames_def next_due_def)
qed




















text \<open>
  C2. The frame rate used lies in \<open>[0, 22]\<close> and the duration used in \<open>[0, 15]\<close>
  seconds: an argument above the range is replaced by its upper end and one below by
  \<open>0\<close>. The session depends on the two arguments through the clamped values only, so a
  call with 100 frames per second and 30 seconds is the call with 22 and 15.
\<close>

theorem saveFrames_clamps:
  "0 \<le> fps_of fps' \<and> fps_of fps' \<le> 22 \<and>
   0 \<le> duration_of duration' \<and> duration_of duration' \<le> 15 * 1000 \<and>
   (\<forall>x. 22 < x \<longrightarrow> fps_of (Some x) = 22) \<and>
   (\<forall>x. x < 0 \<longrightarrow> fps_of (Some x) = 0) \<and>
   (\<forall>y. 15 < y \<longrightarrow> duration_of (Some y) = 15 * 1000) \<and>
   (\<forall>y. y < 0 \<longrightarrow> duration_of (Some y) = 0) \<and>
   (\<forall>d1 f1 d2 f2. duration_of d1 = duration_of d2 \<and> fps_of f1 = fps_of f2 \<longrightarrow>
      saveFrames this fName e d1 f1 cb = saveFrames this fName e d2 f2 cb) \<and>
   saveFrames this fName e (Some 30) (Some 100) cb = saveFrames this fName e (Some 15) (Some 22) cb"
proof -
  have same: "saveFrames this fName e d1 f1 cb = saveFrames this fName e d2 f2 cb"
    if "duration_of d1 = duration_of d2" and "fps_of f1 = fps_of f2" for d1 f1 d2 f2
    using that by (simp add: saveFrames_def)
  have f: "\<forall>x. 22 < x \<longrightarrow> fps_of (Some x) = 22" "\<forall>x. x < 0 \<longrightarrow> fps_of (Some x) = 0"
    by (simp_all add: fps_of_def or_default_def constrain_def)
  have d: "\<forall>y. 15 < y \<longrightarrow> duration_of (Some y) = 15 * 1000" "\<forall>y. y < 0 \<longrightarrow> duration_of (Some y) = 0"
    by (simp_all add: duration_of_def or_default_def constrain_def)
  have "duration_of (Some 30) = duration_of (Some 15)" "fps_of (Some 100) = fps_of (Some 22)"
    by (simp_all add: duration_of_def fps_of_def or_default_def constrain_def)
  then have "saveFrames this fName e (Some 30) (Some 100) cb =
      saveFrames this fName e (Some 15) (Some 22) cb"
    by (rule same)
  with fps_of_range [of fps'] duration_of_range [of duration'] f d same show ?thesis
    by blast
qed

text \<open>
  The theorem on a concrete instance; both calls capture 330 stills.
\<close>

theorem saveFrames_clamps_witness:
  "saveFrames \<lparr>curElement = Some \<lparr>elt = (\<lambda>t m. ''data:'' @ m)\<rparr>\<rparr> ''out'' None (Some 30) (Some 100) True =
     saveFrames \<lparr>curElement = Some \<lparr>elt = (\<lambda>t m. ''data:'' @ m)\<rparr>\<rparr> ''out'' None (Some 15) (Some 22) True \<and>
   fps_of (Some 100) = 22 \<and> fps_of (Some (- 5)) = 0 \<and>
   duration_of (Some 30) = 15000 \<and> duration_of (Some (- 5)) = 0 \<and>
   (\<exists>s. saveFrames \<lparr>curElement = Some \<lparr>elt = (\<lambda>t m. ''data:'' @ m)\<rparr>\<rparr> ''out'' None (Some 30) (Some 100) True = Some (Inr s) \<and>
        count s = 330)"
proof -
  let ?inst = "\<lparr>curElement = Some \<lparr>elt = (\<lambda>(t::real) m. ''data:'' @ m)\<rparr>\<rparr>"
  note c = saveFrames_clamps [of "Some 100" "Some 30" ?inst "''out''" None True]
  from c have same: "saveFrames ?inst ''out'' None (Some 30) (Some 100) True =
      saveFrames ?inst ''out'' None (Some 15) (Some 22) True"
    by blast
  from c have f: "fps_of (Some 100) = 22" "fps_of (Some (- 5)) = 0"
    by simp_all
  from c have d: "duration_of (Some 30) = 15000" "duration_of (Some (- 5)) = 0"
    by simp_all
  have per: "period_of (fps_of (Some 100)) = Every (1000 / 22)"
    by (simp add: f period_of_def)
  have pos: "(0::real) < 1000 / 22"
    by simp
  have n: "ticks_before (1000 / 22) (15000 + 0.01) (1000 / 22) = 330"
    by (simp add: ticks_before_def)
  have el: "curElement ?inst = Some \<lparr>elt = (\<lambda>t m. ''data:'' @ m)\<rparr>"
    by simp
  from saveFrames_every [OF el per pos, of "''out''" None "Some 30" True]
  have "\<exists>s. saveFrames ?inst ''out'' None (Some 30) (Some 100) True = Some (Inr s) \<and> count s = 330"
    by (simp only: d n) simp
  with same f d show ?thesis
    by simp
qed




section \<open>Properties of the animated export\<close>

lemma encodeLoop_encodeAll:
  "encodeLoop lib g fs i gif = encodeAll lib g gif (drop i fs)"
proof (induction lib g fs i gif rule: encodeLoop.induct)
  case (1 lib g fs i gif)
  show ?case
  proof (cases "i < length fs")
    case False
    then show ?thesis
      by (simp add: encodeLoop.simps [of _ _ fs i])
  next
    case True
    then have d: "drop i fs = fs ! i # drop (Suc i) fs"
      by (simp add: Cons_nth_drop_Suc)
    show ?thesis
    proof (cases "encodeFrame lib g gif (fs ! i)")
      case (Inl e)
      with True d show ?thesis
        by (simp add: encodeLoop.simps [of _ _ fs i])
    next
      case (Inr gif')
      with True d "1.IH" [OF True Inr] show ?thesis
        by (simp add: encodeLoop.simps [of _ _ fs i])
    qed
  qed
qed




lemma encodeFrame_data_delay:
  assumes "data (image f) = data (image f')" and "delay f = delay f'"
  shows "encodeFrame lib g gif f = encodeFrame lib g gif f'"
  unfolding encodeFrame_def assms ..

lemma encodeAll_data_delay:
  "map (\<lambda>f. data (image f)) fs = map (\<lambda>f. data (image f)) fs' \<Longrightarrow>
   map delay fs = map delay fs' \<Longrightarrow>
   encodeAll lib g gif fs = encodeAll lib g gif fs'"
proof (induction fs arbitrary: fs' gif)
  case Nil
  then show ?case
    by simp
next
  case (Cons f fs)
  from Cons.prems(1) obtain f' fs1 where fs': "fs' = f' # fs1"
    by (cases fs') simp_all
  from Cons.prems fs' have head: "data (image f) = data (image f')" "delay f = delay f'"
    and tail: "map (\<lambda>f. data (image f)) fs = map (\<lambda>f. data (image f)) fs1"
      "map delay fs = map delay fs1"
    by simp_all
  have step: "encodeFrame lib g gif f = encodeFrame lib g gif f'"
    using head by (rule encodeFrame_data_delay)
  show ?case
  proof (cases "encodeFrame lib g gif f'")
    case (Inl e)
    with step fs' show ?thesis
      by simp
  next
    case (Inr gif1)
    with step fs' Cons.IH [OF tail, of gif1] show ?thesis
      by simp
  qed
qed




lemmas gif_eval = encodeAndDownloadGif_def encodeLoop_encodeAll encodeFrame_def animation_def
  frame_of_def ref_gifenc_def ref_quantize_def ref_applyPalette_def ref_writeFrame_def
  ref_finish_def Let_def



text \<open>
  C3, as the code has it. On an animated image with no frame the loop does not run: the
  encoder is finished as it was created, and its stream is downloaded as one blob of type
  \<open>image/gif\<close> with the extension \<open>gif\<close>. No exception is raised.
\<close>

theorem encodeAndDownloadGif_no_frames:
  assumes "gifProperties pImg = Some props" and "frames props = []"
  shows "encodeAndDownloadGif lib g pImg fname =
           \<lparr>raised = None,
            downloads = [\<lparr>payload = \<lparr>blobParts = [bytesView lib (finish lib (GIFEncoder lib))],
                                     blob_type = ''image/gif''\<rparr>,
                          file_name = fname, file_extension = ''gif''\<rparr>]\<rparr>"
  using assms by (simp add: encodeAndDownloadGif_def encodeLoop_encodeAll Let_def)

text \<open>
  The theorem on the reference encoder.
\<close>

theorem encodeAndDownloadGif_no_frames_witness:
  "gifProperties (animation []) = Some \<lparr>frames = []\<rparr> \<and>
   frames \<lparr>frames = []\<rparr> = [] \<and>
   encodeAndDownloadGif ref_gifenc \<lparr>width = Some 100, height = Some 100\<rparr> (animation []) ''empty'' =
     \<lparr>raised = None,
      downloads = [\<lparr>payload = \<lparr>blobParts = [[Header, Trailer]], blob_type = ''image/gif''\<rparr>,
                    file_name = ''empty'', file_extension = ''gif''\<rparr>]\<rparr>"
proof -
  have h: "gifProperties (animation []) = Some \<lparr>frames = []\<rparr>"
    by (simp add: animation_def)
  have e: "frames \<lparr>frames = []\<rparr> = []"
    by simp
  from encodeAndDownloadGif_no_frames [OF h e, of ref_gifenc "\<lparr>width = Some 100, height = Some 100\<rparr>" "''empty''"]
  have "encodeAndDownloadGif ref_gifenc \<lparr>width = Some 100, height = Some 100\<rparr> (animation []) ''empty'' =
     \<lparr>raised = None,
      downloads = [\<lparr>payload = \<lparr>blobParts = [[Header, Trailer]], blob_type = ''image/gif''\<rparr>,
                    file_name = ''empty'', file_extension = ''gif''\<rparr>]\<rparr>"
    by (simp add: ref_gifenc_def ref_finish_def)
  with h e show ?thesis
    by simp
qed

text \<open>
  C3 as it is stated fails: with no frame, the call raises nothing and hands a stream of
  a header and a trailer to \<^verbatim>\<open>downloadFile\<close>.
\<close>

theorem encodeAndDownloadGif_empty_counterexample:
  "encodeAndDownloadGif ref_gifenc \<lparr>width = None, height = None\<rparr> (animation []) ''anim'' =
     \<lparr>raised = None,
      downloads = [\<lparr>payload = \<lparr>blobParts = [[Header, Trailer]], blob_type = ''image/gif''\<rparr>,
                    file_name = ''anim'', file_extension = ''gif''\<rparr>]\<rparr>"
  by (simp add: gif_eval)

text \<open>
  C4, as the code has it. The call never reads the width or the height of a frame: two
  animated images whose frames agree on their pixel data and on their delays have the
  same outcome, whatever the dimensions of their frames are. (Every frame is written with
  the ambient \<^verbatim>\<open>width\<close> and \<^verbatim>\<open>height\<close>, see \<open>carries\<close>.)
\<close>

theorem encodeAndDownloadGif_ignores_dimensions:
  assumes "gifProperties pImg = Some props" and "gifProperties pImg' = Some props'"
    and "map (\<lambda>f. data (image f)) (frames props) = map (\<lambda>f. data (image f)) (frames props')"
    and "map delay (frames props) = map delay (frames props')"
  shows "encodeAndDownloadGif lib g pImg fname = encodeAndDownloadGif lib g pImg' fname"
proof -
  have "encodeLoop lib g (frames props) 0 (GIFEncoder lib) =
      encodeLoop lib g (frames props') 0 (GIFEncoder lib)"
    using encodeAll_data_delay [OF assms(3,4), of lib g "GIFEncoder lib"]
    by (simp add: encodeLoop_encodeAll)
  with assms(1,2) show ?thesis
    by (simp add: encodeAndDownloadGif_def)
qed

text \<open>
  The theorem on the reference encoder: a second frame declared 7 by 3 is encoded as the
  same frame declared 1 by 1.
\<close>

theorem encodeAndDownloadGif_ignores_dimensions_witness:
  "gifProperties (animation [frame_of [1, 0, 0, 255] 1 1 100, frame_of [2, 0, 0, 255] 7 3 100]) =
     Some \<lparr>frames = [frame_of [1, 0, 0, 255] 1 1 100, frame_of [2, 0, 0, 255] 7 3 100]\<rparr> \<and>
   gifProperties (animation [frame_of [1, 0, 0, 255] 1 1 100, frame_of [2, 0, 0, 255] 1 1 100]) =
     Some \<lparr>frames = [frame_of [1, 0, 0, 255] 1 1 100, frame_of [2, 0, 0, 255] 1 1 100]\<rparr> \<and>
   encodeAndDownloadGif ref_gifenc \<lparr>width = Some 1, height = Some 1\<rparr>
     (animation [frame_of [1, 0, 0, 255] 1 1 100, frame_of [2, 0, 0, 255] 7 3 100]) ''anim'' =
   encodeAndDownloadGif ref_gifenc \<lparr>width = Some 1, height = Some 1\<rparr>
     (animation [frame_of [1, 0, 0, 255] 1 1 100, frame_of [2, 0, 0, 255] 1 1 100]) ''anim'' \<and>
   raised (encodeAndDownloadGif ref_gifenc \<lparr>width = Some 1, height = Some 1\<rparr>
     (animation [frame_of [1, 0, 0, 255] 1 1 100, frame_of [2, 0, 0, 255] 7 3 100]) ''anim'') = None"
proof -
  let ?a = "[frame_of [1, 0, 0, 255] 1 1 100, frame_of [2, 0, 0, 255] 7 3 100]"
  let ?b = "[frame_of [1, 0, 0, 255] 1 1 100, frame_of [2, 0, 0, 255] 1 1 100]"
  let ?g = "\<lparr>width = Some 1, height = Some 1\<rparr>"
  have ha: "gifProperties (animation ?a) = Some \<lparr>frames = ?a\<rparr>"
    and hb: "gifProperties (animation ?b) = Some \<lparr>frames = ?b\<rparr>"
    by (simp_all add: animation_def)
  have d: "map (\<lambda>f. data (image f)) (frames \<lparr>frames = ?a\<rparr>) =
      map (\<lambda>f. data (image f)) (frames \<lparr>frames = ?b\<rparr>)"
    by (simp add: frame_of_def)
  have t: "map delay (frames \<lparr>frames = ?a\<rparr>) = map delay (frames \<lparr>frames = ?b\<rparr>)"
    by (simp add: frame_of_def)
  note same = encodeAndDownloadGif_ignores_dimensions [OF ha hb d t, of ref_gifenc ?g "''anim''"]
  have "raised (encodeAndDownloadGif ref_gifenc ?g (animation ?b) ''anim'') = None"
    by (simp add: gif_eval)
  with same ha hb show ?thesis
    by simp
qed

text \<open>
  C4 as it is stated fails: five frames of which the third is 1 by 2 and the others are
  2 by 1 are encoded and downloaded as one stream of five records, by an encoder that
  raises \<open>DimensionMismatchError\<close> when the dimensions it is given change.
\<close>

theorem encodeAndDownloadGif_mismatch_counterexample:
  "encodeAndDownloadGif ref_gifenc \<lparr>width = Some 2, height = Some 1\<rparr>
     (animation [frame_of [1, 0, 0, 255, 1, 0, 0, 255] 2 1 100,
                 frame_of [2, 0, 0, 255, 2, 0, 0, 255] 2 1 100,
                 frame_of [3, 0, 0, 255, 3, 0, 0, 255] 1 2 100,
                 frame_of [4, 0, 0, 255, 4, 0, 0, 255] 2 1 100,
                 frame_of [5, 0, 0, 255, 5, 0, 0, 255] 2 1 100]) ''anim'' =
     \<lparr>raised = None,
      downloads =
        [\<lparr>payload =
            \<lparr>blobParts =
               [[Header,
                 FrameRecord [[1, 0, 0, 255]] 100 2 1 [0, 0],
                 FrameRecord [[2, 0, 0, 255]] 100 2 1 [0, 0],
                 FrameRecord [[3, 0, 0, 255]] 100 2 1 [0, 0],
                 FrameRecord [[4, 0, 0, 255]] 100 2 1 [0, 0],
                 FrameRecord [[5, 0, 0, 255]] 100 2 1 [0, 0],
                 Trailer]],
             blob_type = ''image/gif''\<rparr>,
          file_name = ''anim'', file_extension = ''gif''\<rparr>]\<rparr>"
  by (simp add: gif_eval)

end
